theory Spec2Isabelle
  imports Complex_Main
begin

section \<open>Python values used by \<^verbatim>\<open>swiftllm/structs.py\<close>\<close>

text \<open>
  Python integers are unbounded and are modelled by \<open>int\<close>. A raise is a value of the
  sum type: \<open>Inl\<close> carries the exception.
\<close>

datatype error = AssertionError | IndexError

text \<open>
  Python's slice \<^verbatim>\<open>xs[i:j]\<close> with either bound optional. A negative bound counts from
  the end, and every bound is clamped to the list.
\<close>

definition norm_index :: "int \<Rightarrow> nat \<Rightarrow> nat" where
  "norm_index i n = (if i < 0 then nat (max 0 (i + int n)) else min (nat i) n)"

definition slice :: "'a list \<Rightarrow> int option \<Rightarrow> int option \<Rightarrow> 'a list" where
  "slice xs lo hi =
     (let n = length xs;
          a = (case lo of None \<Rightarrow> 0 | Some i \<Rightarrow> norm_index i n);
          b = (case hi of None \<Rightarrow> n | Some j \<Rightarrow> norm_index j n)
      in take (b - a) (drop a xs))"

text \<open>\<^verbatim>\<open>max(xs, default=d)\<close>\<close>

definition max_default :: "int list \<Rightarrow> int \<Rightarrow> int" where
  "max_default xs d = (case xs of [] \<Rightarrow> d | y # ys \<Rightarrow> fold max ys y)"

section \<open>Requests\<close>

text \<open>
  A \<^verbatim>\<open>Request\<close> is a mutable object that several lists refer to, so requests live in a
  store and lists hold references. \<^verbatim>\<open>StepOutput\<close> keeps the reference of its request.
  The \<^verbatim>\<open>asyncio.Queue()\<close> of a request is unbounded, so \<^verbatim>\<open>put_nowait\<close> never raises: the
  queue is the list of the items put so far, oldest first. The \<^verbatim>\<open>asyncio.Event\<close> is
  the flag it holds.
\<close>

type_synonym ref = nat

record StepOutput =
  token_id :: int
  request :: ref

datatype prompt = Text string | Tokens "int list"

datatype RawRequest = RawRequest prompt int

record Request =
  prompt_token_ids :: "int list"
  prompt_len :: int
  output_len :: int
  max_output_len :: int
  output_q :: "StepOutput list"
  finished_event :: bool
  request_id :: int
  output_token_ids :: "int list"

type_synonym heap = "ref \<Rightarrow> Request"

definition seq_len :: "Request \<Rightarrow> int" where
  "seq_len r = prompt_len r + output_len r"

fun Request_init :: "RawRequest \<Rightarrow> Request" where
  "Request_init (RawRequest p m) =
     \<lparr>prompt_token_ids = [], prompt_len = 0, output_len = 0, max_output_len = m,
      output_q = [], finished_event = False, request_id = -1, output_token_ids = []\<rparr>"

definition is_finished :: "Request \<Rightarrow> bool" where
  "is_finished r = (output_len r = max_output_len r)"

definition get_ids :: "heap \<Rightarrow> ref list \<Rightarrow> int list" where
  "get_ids h reqs = map (\<lambda>req. request_id (h req)) reqs"

definition get_lens :: "heap \<Rightarrow> ref list \<Rightarrow> int list" where
  "get_lens h reqs = map (\<lambda>req. seq_len (h req)) reqs"

text \<open>
  The body of the loop of \<^verbatim>\<open>update_output\<close>, for one pair of the \<^verbatim>\<open>zip\<close>: the four
  statements in the order of the source, each on the object the reference names.
\<close>

fun update_loop :: "heap \<Rightarrow> (ref \<times> int) list \<Rightarrow> ref list \<Rightarrow> heap \<times> ref list" where
  "update_loop h [] finished_reqs = (h, finished_reqs)"
| "update_loop h ((req, tok) # rest) finished_reqs =
     (let h1 = h(req := (h req)\<lparr>output_len := output_len (h req) + 1\<rparr>);
          h2 = h1(req := (h1 req)\<lparr>output_token_ids := output_token_ids (h1 req) @ [tok]\<rparr>);
          h3 = h2(req := (h2 req)\<lparr>output_q :=
                  output_q (h2 req) @ [\<lparr>token_id = tok, request = req\<rparr>]\<rparr>)
      in if is_finished (h3 req)
         then update_loop (h3(req := (h3 req)\<lparr>finished_event := True\<rparr>)) rest
                (finished_reqs @ [req])
         else update_loop h3 rest finished_reqs)"

text \<open>
  \<^verbatim>\<open>update_output\<close> returns the store together with its result, so that the store after
  a raise can be read too.
\<close>

definition update_output :: "heap \<Rightarrow> ref list \<Rightarrow> int list \<Rightarrow> heap \<times> (error + ref list)" where
  "update_output h reqs output_toks =
     (if length reqs \<noteq> length output_toks then (h, Inl AssertionError)
      else case update_loop h (zip reqs output_toks) [] of
             (h', finished_reqs) \<Rightarrow> (h', Inr finished_reqs))"




fun create_request :: "int list \<Rightarrow> int \<Rightarrow> int list option \<Rightarrow> bool \<Rightarrow> Request" where
  "create_request ptoks req_id otoks quick_stop =
     (let ret = Request_init (RawRequest (Text []) 0);
          ret = ret\<lparr>prompt_token_ids := ptoks\<rparr>;
          ret = ret\<lparr>output_token_ids := (case otoks of None \<Rightarrow> [] | Some ys \<Rightarrow> ys)\<rparr>;
          ret = ret\<lparr>prompt_len := int (length (prompt_token_ids ret))\<rparr>;
          ret = ret\<lparr>output_len := int (length (output_token_ids ret))\<rparr>;
          ret = ret\<lparr>max_output_len := (if quick_stop then output_len ret + 1 else 10 ^ 9)\<rparr>;
          ret = ret\<lparr>request_id := req_id\<rparr>
      in ret)"

text \<open>\<^verbatim>\<open>xs.pop()\<close>: the last element and the list without it, \<^verbatim>\<open>IndexError\<close> on \<open>[]\<close>.\<close>

definition list_pop :: "'a list \<Rightarrow> error + ('a \<times> 'a list)" where
  "list_pop xs = (if xs = [] then Inl IndexError else Inr (last xs, butlast xs))"

section \<open>The performance predictor\<close>

text \<open>
  Modelled from the spec: the module \<^verbatim>\<open>swiftllm.perfpredictor\<close> is not among the sources.
  The spec (4.4) gives its interface: the prefill attention cost of one prompt length, the
  GPU-decode attention cost of the aggregate decode token count, the linear-layer cost of
  the iteration width, the CPU-decode attention cost of (count, aggregate length), and the
  fixed launch overhead. A predictor is a parameter of everything below. Costs are
  real numbers, as the spec has them ("real-valued time estimates"); the rounding of
  binary floating point is outside this model.
\<close>

record PerfPredictor =
  get_linr_T :: "int \<Rightarrow> real"
  get_pref_T :: "int \<Rightarrow> real"
  get_gdec_T :: "int \<Rightarrow> real"
  get_cdec_T :: "int \<Rightarrow> int \<Rightarrow> real"
  get_lnch_T :: real

text \<open>
  Modelled from the spec: \<^verbatim>\<open>ZeroPerfPredictor\<close> "returns 0 unconditionally for every
  query".
\<close>

definition ZeroPerfPredictor :: PerfPredictor where
  "ZeroPerfPredictor =
     \<lparr>get_linr_T = (\<lambda>_. 0), get_pref_T = (\<lambda>_. 0), get_gdec_T = (\<lambda>_. 0),
      get_cdec_T = (\<lambda>_ _. 0), get_lnch_T = 0\<rparr>"


section \<open>BatchPerfData\<close>

record BatchPerfData =
  x :: int
  s :: int
  n_g :: int
  x_c :: int
  n_c :: int
  predictor :: PerfPredictor
  pref_T :: real
  gdec_T :: real
  lnch_T :: real

definition BatchPerfData_init :: "PerfPredictor \<Rightarrow> BatchPerfData" where
  "BatchPerfData_init p =
     \<lparr>x = 0, s = 0, n_g = 0, x_c = 0, n_c = 0, predictor = p,
      pref_T = 0, gdec_T = 0, lnch_T = get_lnch_T p\<rparr>"

definition BatchPerfData_add_pref :: "BatchPerfData \<Rightarrow> int \<Rightarrow> BatchPerfData" where
  "BatchPerfData_add_pref self len =
     self\<lparr>x := x self + 1,
          s := s self + len,
          pref_T := pref_T self + get_pref_T (predictor self) len\<rparr>"

definition BatchPerfData_pop_pref :: "BatchPerfData \<Rightarrow> int \<Rightarrow> BatchPerfData" where
  "BatchPerfData_pop_pref self len =
     self\<lparr>x := x self - 1,
          s := s self - len,
          pref_T := pref_T self - get_pref_T (predictor self) len\<rparr>"

definition BatchPerfData_add_gdec :: "BatchPerfData \<Rightarrow> int \<Rightarrow> BatchPerfData" where
  "BatchPerfData_add_gdec self len =
     (let self1 = self\<lparr>x := x self + 1, s := s self + 1, n_g := n_g self + len\<rparr>
      in self1\<lparr>gdec_T := get_gdec_T (predictor self1) (n_g self1)\<rparr>)"

definition BatchPerfData_add_cdec :: "BatchPerfData \<Rightarrow> int \<Rightarrow> BatchPerfData" where
  "BatchPerfData_add_cdec self len =
     self\<lparr>x := x self + 1, s := s self + 1, x_c := x_c self + 1, n_c := n_c self + len\<rparr>"

definition BatchPerfData_pop_cdec :: "BatchPerfData \<Rightarrow> int \<Rightarrow> BatchPerfData" where
  "BatchPerfData_pop_cdec self len =
     self\<lparr>x := x self - 1, s := s self - 1, x_c := x_c self - 1, n_c := n_c self - len\<rparr>"










section \<open>SubBatch\<close>

record SubBatch =
  gprf_reqs :: "ref list"
  cprf_reqs :: "ref list"
  gdec_reqs :: "ref list"
  cdec_reqs :: "ref list"
  perfdata :: BatchPerfData

definition SubBatch_init :: "PerfPredictor \<Rightarrow> SubBatch" where
  "SubBatch_init p =
     \<lparr>gprf_reqs = [], cprf_reqs = [], gdec_reqs = [], cdec_reqs = [],
      perfdata = BatchPerfData_init p\<rparr>"

definition SubBatch_len :: "SubBatch \<Rightarrow> int" where
  "SubBatch_len self = x (perfdata self)"

definition SubBatch_add_pref :: "heap \<Rightarrow> SubBatch \<Rightarrow> ref \<Rightarrow> bool \<Rightarrow> SubBatch" where
  "SubBatch_add_pref h self req is_gpu =
     (let self1 = (if is_gpu then self\<lparr>gprf_reqs := gprf_reqs self @ [req]\<rparr>
                   else self\<lparr>cprf_reqs := cprf_reqs self @ [req]\<rparr>)
      in self1\<lparr>perfdata := BatchPerfData_add_pref (perfdata self1) (prompt_len (h req))\<rparr>)"

definition SubBatch_pop_pref :: "heap \<Rightarrow> SubBatch \<Rightarrow> error + ((ref \<times> bool) \<times> SubBatch)" where
  "SubBatch_pop_pref h self =
     (let is_gpu = (cprf_reqs self = [])
      in case (if is_gpu then list_pop (gprf_reqs self) else list_pop (cprf_reqs self)) of
           Inl e \<Rightarrow> Inl e
         | Inr (req, rest) \<Rightarrow>
             (let self1 = (if is_gpu then self\<lparr>gprf_reqs := rest\<rparr>
                           else self\<lparr>cprf_reqs := rest\<rparr>)
              in Inr ((req, is_gpu),
                      self1\<lparr>perfdata :=
                        BatchPerfData_pop_pref (perfdata self1) (prompt_len (h req))\<rparr>)))"

definition SubBatch_add_gdec :: "heap \<Rightarrow> SubBatch \<Rightarrow> ref \<Rightarrow> SubBatch" where
  "SubBatch_add_gdec h self req =
     self\<lparr>gdec_reqs := gdec_reqs self @ [req],
          perfdata := BatchPerfData_add_gdec (perfdata self) (seq_len (h req))\<rparr>"

definition SubBatch_add_cdec :: "heap \<Rightarrow> SubBatch \<Rightarrow> ref \<Rightarrow> SubBatch" where
  "SubBatch_add_cdec h self req =
     self\<lparr>cdec_reqs := cdec_reqs self @ [req],
          perfdata := BatchPerfData_add_cdec (perfdata self) (seq_len (h req))\<rparr>"

definition SubBatch_pop_cdec :: "heap \<Rightarrow> SubBatch \<Rightarrow> error + SubBatch" where
  "SubBatch_pop_cdec h self =
     (case list_pop (cdec_reqs self) of
        Inl e \<Rightarrow> Inl e
      | Inr (req, rest) \<Rightarrow>
          Inr (self\<lparr>cdec_reqs := rest,
                    perfdata := BatchPerfData_pop_cdec (perfdata self) (seq_len (h req))\<rparr>))"

definition get_num_prefs :: "SubBatch \<Rightarrow> int" where
  "get_num_prefs self = int (length (gprf_reqs self)) + int (length (cprf_reqs self))"

text \<open>
  A sequence of calls on one \<^verbatim>\<open>SubBatch\<close>; it stops at the first raise, as the
  exception would.
\<close>

datatype sb_op = Sb_add_pref ref bool | Sb_pop_pref | Sb_add_gdec ref | Sb_add_cdec ref | Sb_pop_cdec

fun sb_apply :: "heap \<Rightarrow> SubBatch \<Rightarrow> sb_op \<Rightarrow> error + SubBatch" where
  "sb_apply h b (Sb_add_pref req is_gpu) = Inr (SubBatch_add_pref h b req is_gpu)"
| "sb_apply h b Sb_pop_pref = map_sum id snd (SubBatch_pop_pref h b)"
| "sb_apply h b (Sb_add_gdec req) = Inr (SubBatch_add_gdec h b req)"
| "sb_apply h b (Sb_add_cdec req) = Inr (SubBatch_add_cdec h b req)"
| "sb_apply h b Sb_pop_cdec = SubBatch_pop_cdec h b"

fun sb_run :: "heap \<Rightarrow> SubBatch \<Rightarrow> sb_op list \<Rightarrow> error + SubBatch" where
  "sb_run h b [] = Inr b"
| "sb_run h b (op # ops) = (case sb_apply h b op of Inl e \<Rightarrow> Inl e | Inr b' \<Rightarrow> sb_run h b' ops)"

subsection \<open>Finalization\<close>

text \<open>
  \<^verbatim>\<open>swiftllm.model_config\<close> is not among the sources; \<^verbatim>\<open>set_model_forward_args\<close> reads one
  attribute of the configuration.
\<close>

record LlamaModelConfig =
  num_kv_heads :: int

text \<open>The attributes \<^verbatim>\<open>set_model_forward_args\<close> leaves on the object.\<close>

record ForwardArgs =
  batch_size :: int
  iter_width :: int
  num_cprfs :: int
  num_gprfs :: int
  num_gdecs :: int
  num_cdecs :: int
  num_prefs :: int
  num_prgds :: int
  all_reqs :: "ref list"
  seq_ids_list :: "int list"
  seq_lens_list :: "int list"
  sum_pref_toks :: int
  sum_prgd_toks :: int
  max_pref_toks :: int
  seq_block_size :: int
  num_seq_blocks :: int

text \<open>
  The condition and the loop of the block sizing. \<^verbatim>\<open>/\<close> is Python's true division and
  \<^verbatim>\<open>//\<close> its floor division. The divisor is a power of two between 32 and 2048, so the
  quotient is exact in binary floating point for token counts below \<open>2 ^ 53\<close>, and the
  comparison with 1024 or 128 is the comparison of the exact values.
\<close>

definition keep_halving :: "int \<Rightarrow> int \<Rightarrow> int \<Rightarrow> int \<Rightarrow> bool" where
  "keep_halving kv_heads sum_gdec_toks max_gdec_toks block_size \<longleftrightarrow>
     real_of_int kv_heads * (real_of_int sum_gdec_toks / real_of_int block_size) < 1024 \<and>
     block_size div 2 \<ge> 64 \<and>
     real_of_int max_gdec_toks / real_of_int (block_size div 2) \<le> 128"

function halve_block_size :: "int \<Rightarrow> int \<Rightarrow> int \<Rightarrow> int \<Rightarrow> int" where
  "halve_block_size kv_heads sum_gdec_toks max_gdec_toks block_size =
     (if keep_halving kv_heads sum_gdec_toks max_gdec_toks block_size
      then halve_block_size kv_heads sum_gdec_toks max_gdec_toks (block_size div 2)
      else block_size)"
  by pat_completeness auto
termination
  by (relation "measure (\<lambda>(k, a, m, b). nat b)") (auto simp: keep_halving_def)

declare halve_block_size.simps [simp del]

definition set_model_forward_args :: "heap \<Rightarrow> SubBatch \<Rightarrow> LlamaModelConfig \<Rightarrow> error + ForwardArgs" where
  "set_model_forward_args h self model_config =
     (let n_cprfs = int (length (cprf_reqs self));
          n_gprfs = int (length (gprf_reqs self));
          n_gdecs = int (length (gdec_reqs self));
          n_cdecs = int (length (cdec_reqs self));
          n_prefs = n_cprfs + n_gprfs;
          n_prgds = n_prefs + n_gdecs;
          reqs = cprf_reqs self @ gprf_reqs self @ gdec_reqs self @ cdec_reqs self
      in if \<not> list_all (\<lambda>req. request_id (h req) \<ge> 0) reqs then Inl AssertionError
         else
           (let ids = get_ids h reqs;
                lens = get_lens h reqs;
                sum_pref = sum_list (slice lens None (Some n_prefs));
                sum_gdec_toks = sum_list (slice lens (Some n_prefs) (Some n_prgds));
                max_gdec_toks = max_default (slice lens (Some n_prefs) (Some n_prgds)) 0;
                block_size = halve_block_size (num_kv_heads model_config)
                               sum_gdec_toks max_gdec_toks 2048
            in Inr \<lparr>batch_size = x (perfdata self),
                    iter_width = s (perfdata self),
                    num_cprfs = n_cprfs, num_gprfs = n_gprfs,
                    num_gdecs = n_gdecs, num_cdecs = n_cdecs,
                    num_prefs = n_prefs, num_prgds = n_prgds,
                    all_reqs = reqs, seq_ids_list = ids, seq_lens_list = lens,
                    sum_pref_toks = sum_pref,
                    sum_prgd_toks = sum_pref + n_gdecs,
                    max_pref_toks = max_default (slice lens None (Some n_prefs)) 0,
                    seq_block_size = block_size,
                    num_seq_blocks = (max_gdec_toks + block_size - 1) div block_size\<rparr>))"

section \<open>Auxiliary notions of the statements\<close>


text \<open>
  A store for the examples: request 0 has a prompt of 100 tokens and stops after one
  output token, every other request has a prompt of 50 tokens; in \<open>ex_done\<close> request 0
  has produced its token.
\<close>

definition ex_heap :: heap where
  "ex_heap = (\<lambda>a. create_request (replicate (if a = 0 then 100 else 50) 7) (int a) None (a = 0))"


text \<open>
  A sub-batch for the examples: request 1 added as a CPU prefill to a fresh sub-batch
  with the zero predictor. \<open>ex_predictor\<close> is a predictor with non-negative costs.
\<close>

definition ex_batch :: SubBatch where
  "ex_batch = SubBatch_add_pref ex_heap (SubBatch_init ZeroPerfPredictor) 1 False"




definition totals_consistent :: "heap \<Rightarrow> SubBatch \<Rightarrow> bool" where
  "totals_consistent h sb \<longleftrightarrow>
     x (perfdata sb) = int (length (gprf_reqs sb)) + int (length (cprf_reqs sb))
        + int (length (gdec_reqs sb)) + int (length (cdec_reqs sb)) \<and>
     s (perfdata sb) = sum_list (map (\<lambda>req. prompt_len (h req)) (gprf_reqs sb @ cprf_reqs sb))
        + int (length (gdec_reqs sb)) + int (length (cdec_reqs sb))"

text \<open>
  A composition for the examples and the sub-batch it builds; the arguments its
  finalization leaves, with the block size as a parameter; a store in which request 1
  has no id assigned; a request fresh from \<^verbatim>\<open>__init__\<close>.
\<close>

definition ex_ops :: "sb_op list" where
  "ex_ops = [Sb_add_pref 0 True, Sb_add_pref 1 False, Sb_add_gdec 2, Sb_add_cdec 3,
             Sb_pop_cdec, Sb_pop_pref]"

definition ex_composed :: SubBatch where
  "ex_composed =
     \<lparr>gprf_reqs = [0], cprf_reqs = [], gdec_reqs = [2], cdec_reqs = [],
      perfdata = \<lparr>x = 2, s = 101, n_g = 50, x_c = 0, n_c = 0, predictor = ZeroPerfPredictor,
                  pref_T = 0, gdec_T = 0, lnch_T = 0\<rparr>\<rparr>"

definition ex_args :: "int \<Rightarrow> ForwardArgs" where
  "ex_args block_size =
     \<lparr>batch_size = 2, iter_width = 101, num_cprfs = 0, num_gprfs = 1, num_gdecs = 1,
      num_cdecs = 0, num_prefs = 1, num_prgds = 2, all_reqs = [0, 2], seq_ids_list = [0, 2],
      seq_lens_list = [100, 50], sum_pref_toks = 100, sum_prgd_toks = 101,
      max_pref_toks = 100, seq_block_size = block_size, num_seq_blocks = 1\<rparr>"

definition ex_unset :: heap where
  "ex_unset = ex_heap(1 := Request_init (RawRequest (Text ''hi'') 5))"


section \<open>Properties of \<^verbatim>\<open>update_output\<close>\<close>




lemma ex_heap_0: "ex_heap 0 = \<lparr>prompt_token_ids = replicate 100 7, prompt_len = 100, output_len = 0, max_output_len = 1,
      output_q = [], finished_event = False, request_id = 0, output_token_ids = []\<rparr>"
  by (simp add: ex_heap_def Let_def)

lemma ex_heap_Suc: "ex_heap (Suc n) = \<lparr>prompt_token_ids = replicate 50 7, prompt_len = 50, output_len = 0, max_output_len = 10 ^ 9,
      output_q = [], finished_event = False, request_id = 1 + int n, output_token_ids = []\<rparr>"
  by (simp add: ex_heap_def Let_def)



text \<open>
  Claim C8. \<^verbatim>\<open>update_output\<close> raises exactly when the two lists differ in length, and then
  the store is the store before the call: no field of any request has changed.
\<close>

theorem update_output_raises:
  "(isl (snd (update_output h reqs output_toks)) \<longleftrightarrow> length reqs \<noteq> length output_toks) \<and>
   (isl (snd (update_output h reqs output_toks)) \<longrightarrow> fst (update_output h reqs output_toks) = h)"
  by (simp add: update_output_def split: prod.splits)

theorem update_output_raises_witness:
  "isl (snd (update_output ex_heap [0, 1] [7])) \<and> length [0::nat, 1] \<noteq> length [7::int] \<and>
   fst (update_output ex_heap [0, 1] [7]) = ex_heap \<and>
   \<not> isl (snd (update_output ex_heap [0, 1] [7, 8]))"
  using update_output_raises [of ex_heap "[0, 1]" "[7]"]
    update_output_raises [of ex_heap "[0, 1]" "[7, 8]"]
  by simp



section \<open>Properties of \<^verbatim>\<open>BatchPerfData\<close> and of the composition phase\<close>



lemma list_pop_snoc: "list_pop (xs @ [a]) = Inr (a, xs)"
  by (simp add: list_pop_def)

lemma pop_add_pref: "BatchPerfData_pop_pref (BatchPerfData_add_pref b n) n = b"
  by (simp add: BatchPerfData_pop_pref_def BatchPerfData_add_pref_def)



lemma list_pop_Inr: "list_pop xs = Inr (a, rest) \<Longrightarrow> xs = rest @ [a]"
  by (auto simp: list_pop_def split: if_splits)







text \<open>
  Claim C2, as amended. \<^verbatim>\<open>pop_pref\<close> removes and returns the last request of the
  CPU-prefill list unless that list is empty, otherwise the last request of the
  GPU-prefill list, with the flag \<open>False\<close> for CPU and \<open>True\<close> for GPU, and takes its prompt
  length out of the totals; it raises \<^verbatim>\<open>IndexError\<close> when both lists are empty. After
  \<^verbatim>\<open>add_pref(r1, is_gpu=True)\<close> and \<^verbatim>\<open>add_pref(r2, is_gpu=False)\<close> the first \<^verbatim>\<open>pop_pref\<close> returns
  the CPU-placed \<open>r2\<close>; the GPU-placed \<open>r1\<close> comes once the CPU-prefill list is empty.
\<close>

theorem pop_pref_order:
  "(cprf_reqs sb \<noteq> [] \<longrightarrow>
      SubBatch_pop_pref h sb =
        Inr ((last (cprf_reqs sb), False),
             sb\<lparr>cprf_reqs := butlast (cprf_reqs sb),
                perfdata := BatchPerfData_pop_pref (perfdata sb)
                              (prompt_len (h (last (cprf_reqs sb))))\<rparr>)) \<and>
   (cprf_reqs sb = [] \<and> gprf_reqs sb \<noteq> [] \<longrightarrow>
      SubBatch_pop_pref h sb =
        Inr ((last (gprf_reqs sb), True),
             sb\<lparr>gprf_reqs := butlast (gprf_reqs sb),
                perfdata := BatchPerfData_pop_pref (perfdata sb)
                              (prompt_len (h (last (gprf_reqs sb))))\<rparr>)) \<and>
   (cprf_reqs sb = [] \<and> gprf_reqs sb = [] \<longrightarrow> SubBatch_pop_pref h sb = Inl IndexError) \<and>
   SubBatch_pop_pref h (SubBatch_add_pref h (SubBatch_add_pref h sb r1 True) r2 False) =
     Inr ((r2, False), SubBatch_add_pref h sb r1 True) \<and>
   (cprf_reqs sb = [] \<longrightarrow>
      SubBatch_pop_pref h (SubBatch_add_pref h sb r1 True) = Inr ((r1, True), sb))"
proof -
  have two: "SubBatch_pop_pref h (SubBatch_add_pref h (SubBatch_add_pref h sb r1 True) r2 False) =
     Inr ((r2, False), SubBatch_add_pref h sb r1 True)"
    by (simp add: SubBatch_pop_pref_def SubBatch_add_pref_def Let_def list_pop_snoc pop_add_pref)
  have one: "SubBatch_pop_pref h (SubBatch_add_pref h sb r1 True) = Inr ((r1, True), sb)"
    if "cprf_reqs sb = []"
    using that
    by (simp add: SubBatch_pop_pref_def SubBatch_add_pref_def Let_def list_pop_snoc pop_add_pref)
  show ?thesis
    using two one by (simp add: SubBatch_pop_pref_def list_pop_def Let_def)
qed

theorem pop_pref_order_witness:
  "cprf_reqs ex_batch \<noteq> [] \<and>
   SubBatch_pop_pref ex_heap ex_batch = Inr ((1, False), SubBatch_init ZeroPerfPredictor) \<and>
   cprf_reqs (SubBatch_init ZeroPerfPredictor) = [] \<and>
   gprf_reqs (SubBatch_init ZeroPerfPredictor) = [] \<and>
   SubBatch_pop_pref ex_heap (SubBatch_init ZeroPerfPredictor) = Inl IndexError \<and>
   SubBatch_pop_pref ex_heap (SubBatch_add_pref ex_heap (SubBatch_init ZeroPerfPredictor) 0 True) =
     Inr ((0, True), SubBatch_init ZeroPerfPredictor)"
proof -
  have a: "cprf_reqs ex_batch \<noteq> []"
    by (simp add: ex_batch_def SubBatch_add_pref_def)
  have b: "cprf_reqs (SubBatch_init ZeroPerfPredictor) = []"
    and c: "gprf_reqs (SubBatch_init ZeroPerfPredictor) = []"
    by (simp_all add: SubBatch_init_def)
  have d: "SubBatch_pop_pref ex_heap ex_batch = Inr ((1, False), SubBatch_init ZeroPerfPredictor)"
    by (simp add: ex_batch_def SubBatch_pop_pref_def SubBatch_add_pref_def Let_def
        list_pop_snoc pop_add_pref)
  show ?thesis
    using a b c d pop_pref_order [of "SubBatch_init ZeroPerfPredictor" ex_heap 0 1]
    by simp
qed

text \<open>
  Claim C2 as stated fails: with request 0 in the GPU-prefill list and request 1 in the
  CPU-prefill list, \<^verbatim>\<open>pop_pref\<close> returns request 1 with the flag \<open>False\<close> and leaves the
  GPU-prefill list as it was.
\<close>

theorem pop_pref_order_counterexample:
  "gprf_reqs (SubBatch_add_pref ex_heap
       (SubBatch_add_pref ex_heap (SubBatch_init ZeroPerfPredictor) 0 True) 1 False) = [0] \<and>
   cprf_reqs (SubBatch_add_pref ex_heap
       (SubBatch_add_pref ex_heap (SubBatch_init ZeroPerfPredictor) 0 True) 1 False) = [1] \<and>
   SubBatch_pop_pref ex_heap (SubBatch_add_pref ex_heap
       (SubBatch_add_pref ex_heap (SubBatch_init ZeroPerfPredictor) 0 True) 1 False) =
     Inr ((1, False),
       \<lparr>gprf_reqs = [0], cprf_reqs = [], gdec_reqs = [], cdec_reqs = [],
        perfdata = \<lparr>x = 1, s = 100, n_g = 0, x_c = 0, n_c = 0, predictor = ZeroPerfPredictor,
                    pref_T = 0, gdec_T = 0, lnch_T = 0\<rparr>\<rparr>)"
  by (simp add: SubBatch_pop_pref_def SubBatch_add_pref_def SubBatch_init_def
      BatchPerfData_init_def BatchPerfData_add_pref_def BatchPerfData_pop_pref_def
      ZeroPerfPredictor_def list_pop_def Let_def ex_heap_0 ex_heap_Suc [of 0, simplified])

lemma totals_consistent_init: "totals_consistent h (SubBatch_init p)"
  by (simp add: totals_consistent_def SubBatch_init_def BatchPerfData_init_def)

lemma totals_consistent_apply:
  "totals_consistent h sb \<Longrightarrow> sb_apply h sb op = Inr sb' \<Longrightarrow> totals_consistent h sb'"
proof (cases op)
  case (Sb_add_pref req is_gpu)
  assume "totals_consistent h sb" "sb_apply h sb op = Inr sb'"
  with Sb_add_pref show ?thesis
    by (cases is_gpu)
      (auto simp: totals_consistent_def SubBatch_add_pref_def BatchPerfData_add_pref_def Let_def)
next
  case Sb_pop_pref
  assume tc: "totals_consistent h sb" and ap: "sb_apply h sb op = Inr sb'"
  from ap Sb_pop_pref obtain r where pp: "SubBatch_pop_pref h sb = Inr (r, sb')"
    by (cases "SubBatch_pop_pref h sb") auto
  show ?thesis
  proof (cases "cprf_reqs sb = []")
    case True
    with pp obtain req rest where lp: "list_pop (gprf_reqs sb) = Inr (req, rest)"
      and sb': "sb' = sb\<lparr>gprf_reqs := rest,
          perfdata := BatchPerfData_pop_pref (perfdata sb) (prompt_len (h req))\<rparr>"
      by (auto simp: SubBatch_pop_pref_def Let_def split: sum.splits)
    from list_pop_Inr [OF lp] tc True show ?thesis
      by (simp add: sb' totals_consistent_def BatchPerfData_pop_pref_def)
  next
    case False
    with pp obtain req rest where lp: "list_pop (cprf_reqs sb) = Inr (req, rest)"
      and sb': "sb' = sb\<lparr>cprf_reqs := rest,
          perfdata := BatchPerfData_pop_pref (perfdata sb) (prompt_len (h req))\<rparr>"
      by (auto simp: SubBatch_pop_pref_def Let_def split: sum.splits)
    from list_pop_Inr [OF lp] tc show ?thesis
      by (simp add: sb' totals_consistent_def BatchPerfData_pop_pref_def)
  qed
next
  case (Sb_add_gdec req)
  assume "totals_consistent h sb" "sb_apply h sb op = Inr sb'"
  with Sb_add_gdec show ?thesis
    by (auto simp: totals_consistent_def SubBatch_add_gdec_def BatchPerfData_add_gdec_def Let_def)
next
  case (Sb_add_cdec req)
  assume "totals_consistent h sb" "sb_apply h sb op = Inr sb'"
  with Sb_add_cdec show ?thesis
    by (auto simp: totals_consistent_def SubBatch_add_cdec_def BatchPerfData_add_cdec_def)
next
  case Sb_pop_cdec
  assume tc: "totals_consistent h sb" and ap: "sb_apply h sb op = Inr sb'"
  with Sb_pop_cdec obtain req rest where lp: "list_pop (cdec_reqs sb) = Inr (req, rest)"
    and sb': "sb' = sb\<lparr>cdec_reqs := rest,
        perfdata := BatchPerfData_pop_cdec (perfdata sb) (seq_len (h req))\<rparr>"
    by (auto simp: SubBatch_pop_cdec_def split: sum.splits)
  from list_pop_Inr [OF lp] tc show ?thesis
    by (simp add: sb' totals_consistent_def BatchPerfData_pop_cdec_def)
qed

lemma totals_consistent_run:
  "totals_consistent h sb \<Longrightarrow> sb_run h sb ops = Inr sb' \<Longrightarrow> totals_consistent h sb'"
proof (induction ops arbitrary: sb)
  case Nil
  then show ?case by simp
next
  case (Cons op ops)
  from Cons.prems(2) obtain sb1 where a: "sb_apply h sb op = Inr sb1" and r: "sb_run h sb1 ops = Inr sb'"
    by (auto split: sum.splits)
  from Cons.IH [OF totals_consistent_apply [OF Cons.prems(1) a] r] show ?case .
qed

text \<open>
  Claim C5. After any sequence of \<^verbatim>\<open>add_pref\<close>, \<^verbatim>\<open>pop_pref\<close>, \<^verbatim>\<open>add_gdec\<close>, \<^verbatim>\<open>add_cdec\<close>,
  \<^verbatim>\<open>pop_cdec\<close> on a fresh \<^verbatim>\<open>SubBatch\<close> in which no pop raises, \<open>x\<close> is the sum of the lengths of
  the four lists, \<^verbatim>\<open>len\<close> of the sub-batch is \<open>x\<close>, and \<open>s\<close> is the sum of \<open>prompt_len\<close> over
  the prefill requests plus the number of decode requests.
\<close>

theorem SubBatch_running_totals:
  assumes "sb_run h (SubBatch_init p) ops = Inr sb"
  shows "x (perfdata sb) = int (length (gprf_reqs sb)) + int (length (cprf_reqs sb))
            + int (length (gdec_reqs sb)) + int (length (cdec_reqs sb)) \<and>
         SubBatch_len sb = x (perfdata sb) \<and>
         s (perfdata sb) = sum_list (map (\<lambda>req. prompt_len (h req)) (gprf_reqs sb @ cprf_reqs sb))
            + int (length (gdec_reqs sb)) + int (length (cdec_reqs sb))"
  using totals_consistent_run [OF totals_consistent_init assms]
  by (simp add: totals_consistent_def SubBatch_len_def)

theorem SubBatch_running_totals_witness:
  "sb_run ex_heap (SubBatch_init ZeroPerfPredictor)
     [Sb_add_pref 0 True, Sb_add_pref 1 False, Sb_add_gdec 2, Sb_add_cdec 3, Sb_pop_cdec, Sb_pop_pref] =
     Inr \<lparr>gprf_reqs = [0], cprf_reqs = [], gdec_reqs = [2], cdec_reqs = [],
          perfdata = \<lparr>x = 2, s = 101, n_g = 50, x_c = 0, n_c = 0, predictor = ZeroPerfPredictor,
                      pref_T = 0, gdec_T = 0, lnch_T = 0\<rparr>\<rparr> \<and>
   (2::int) = int (length [0::nat]) + int (length ([]::nat list)) + int (length [2::nat])
       + int (length ([]::nat list)) \<and>
   (101::int) = sum_list (map (\<lambda>req. prompt_len (ex_heap req)) ([0] @ []))
       + int (length [2::nat]) + int (length ([]::nat list))"
proof -
  have run: "sb_run ex_heap (SubBatch_init ZeroPerfPredictor)
     [Sb_add_pref 0 True, Sb_add_pref 1 False, Sb_add_gdec 2, Sb_add_cdec 3, Sb_pop_cdec, Sb_pop_pref] =
     Inr \<lparr>gprf_reqs = [0], cprf_reqs = [], gdec_reqs = [2], cdec_reqs = [],
          perfdata = \<lparr>x = 2, s = 101, n_g = 50, x_c = 0, n_c = 0, predictor = ZeroPerfPredictor,
                      pref_T = 0, gdec_T = 0, lnch_T = 0\<rparr>\<rparr>"
    by (simp add: SubBatch_init_def SubBatch_add_pref_def SubBatch_pop_pref_def
        SubBatch_add_gdec_def SubBatch_add_cdec_def SubBatch_pop_cdec_def
        BatchPerfData_init_def BatchPerfData_add_pref_def BatchPerfData_pop_pref_def
        BatchPerfData_add_gdec_def BatchPerfData_add_cdec_def BatchPerfData_pop_cdec_def
        ZeroPerfPredictor_def list_pop_def Let_def seq_len_def ex_heap_def)
  show ?thesis
    using run SubBatch_running_totals [OF run] by simp
qed

section \<open>Properties of the finalization\<close>

lemma halve_block_size_range:
  "b \<in> {64, 128, 256, 512, 1024, 2048} \<Longrightarrow>
   halve_block_size k a m b \<in> {64, 128, 256, 512, 1024, 2048}"
proof (induction k a m b rule: halve_block_size.induct)
  case (1 k a m b)
  show ?case
  proof (cases "keep_halving k a m b")
    case True
    then have "b div 2 \<ge> 64" by (simp add: keep_halving_def)
    with "1.prems" have "b div 2 \<in> {64, 128, 256, 512, 1024, 2048}" by auto
    from "1.IH" [OF True this] True show ?thesis
      by (subst halve_block_size.simps) simp
  next
    case False
    with "1.prems" show ?thesis by (subst halve_block_size.simps) simp
  qed
qed

lemma halve_block_size_steps:
  "b \<in> {64, 128, 256, 512, 1024, 2048} \<Longrightarrow>
   \<exists>n. halve_block_size k a m b = b div 2 ^ n \<and>
       (\<forall>j<n. keep_halving k a m (b div 2 ^ j)) \<and>
       \<not> keep_halving k a m (b div 2 ^ n)"
proof (induction k a m b rule: halve_block_size.induct)
  case (1 k a m b)
  show ?case
  proof (cases "keep_halving k a m b")
    case True
    then have "b div 2 \<ge> 64" by (simp add: keep_halving_def)
    with "1.prems" have "b div 2 \<in> {64, 128, 256, 512, 1024, 2048}" by auto
    from "1.IH" [OF True this] obtain n where
      n: "halve_block_size k a m (b div 2) = b div 2 div 2 ^ n"
        "\<forall>j<n. keep_halving k a m (b div 2 div 2 ^ j)"
        "\<not> keep_halving k a m (b div 2 div 2 ^ n)"
      by blast
    have d: "b div 2 div 2 ^ j = b div 2 ^ Suc j" for j
      by (simp add: zdiv_zmult2_eq)
    have "halve_block_size k a m b = b div 2 ^ Suc n"
      using True n(1) by (subst halve_block_size.simps) (simp add: d)
    moreover have "\<forall>j<Suc n. keep_halving k a m (b div 2 ^ j)"
    proof (intro allI impI)
      fix j assume "j < Suc n"
      show "keep_halving k a m (b div 2 ^ j)"
      proof (cases j)
        case 0
        with True show ?thesis by simp
      next
        case (Suc i)
        with \<open>j < Suc n\<close> n(2) have "keep_halving k a m (b div 2 div 2 ^ i)" by simp
        then have "keep_halving k a m (b div 2 ^ Suc i)" unfolding d .
        with Suc show ?thesis by simp
      qed
    qed
    moreover have "\<not> keep_halving k a m (b div 2 ^ Suc n)"
      using n(3) unfolding d .
    ultimately show ?thesis by blast
  next
    case False
    then have "halve_block_size k a m b = b div 2 ^ 0" by (subst halve_block_size.simps) simp
    with False show ?thesis by (intro exI [of _ 0]) simp
  qed
qed

lemma ceiling_div: "0 < b \<Longrightarrow> \<lceil>real_of_int a / real_of_int b\<rceil> = (a + b - 1) div b"
proof -
  assume b: "0 < b"
  define q where "q = (- a) div b"
  define r where "r = (- a) mod b"
  have r: "0 \<le> r" "r < b"
    using b by (simp_all add: r_def)
  have "- a = b * q + r"
    by (simp add: q_def r_def)
  then have "a + b - 1 = b * (- q) + (b - 1 - r)"
    by (simp add: algebra_simps)
  moreover have "0 \<le> b - 1 - r" "b - 1 - r < b"
    using r by simp_all
  ultimately have "(a + b - 1) div b = - q"
    by (rule int_div_pos_eq)
  moreover have "\<lceil>real_of_int a / real_of_int b\<rceil> = - q"
    by (simp add: ceiling_divide_eq_div q_def)
  ultimately show ?thesis by simp
qed

lemma slice_gdec:
  "slice (map f c @ map f g @ map f d @ map f e) (Some (int (length c) + int (length g)))
     (Some (int (length c) + int (length g) + int (length d))) = map f d"
  by (simp add: slice_def norm_index_def Let_def)

lemma finalize_block:
  assumes "set_model_forward_args h sb cfg = Inr fa"
  shows "seq_block_size fa =
           halve_block_size (num_kv_heads cfg) (sum_list (get_lens h (gdec_reqs sb)))
             (max_default (get_lens h (gdec_reqs sb)) 0) 2048"
    and "num_seq_blocks fa =
           (max_default (get_lens h (gdec_reqs sb)) 0 + seq_block_size fa - 1) div seq_block_size fa"
  using assms
  by (auto simp: set_model_forward_args_def Let_def get_lens_def slice_gdec split: if_splits)

lemma finalize_Inl:
  "set_model_forward_args h sb cfg = Inl e \<longleftrightarrow>
     e = AssertionError \<and>
     (\<exists>req\<in>set (cprf_reqs sb @ gprf_reqs sb @ gdec_reqs sb @ cdec_reqs sb). request_id (h req) < 0)"
  by (auto simp: set_model_forward_args_def Let_def list_all_iff not_le)

lemma finalize_Inr:
  assumes "set_model_forward_args h sb cfg = Inr fa"
  shows "all_reqs fa = cprf_reqs sb @ gprf_reqs sb @ gdec_reqs sb @ cdec_reqs sb"
    and "num_prgds fa = int (length (cprf_reqs sb)) + int (length (gprf_reqs sb))
           + int (length (gdec_reqs sb))"
    and "num_cdecs fa = int (length (cdec_reqs sb))"
    and "batch_size fa = x (perfdata sb)"
  using assms by (auto simp: set_model_forward_args_def Let_def split: if_splits)

lemma ex_run: "sb_run ex_heap (SubBatch_init ZeroPerfPredictor) ex_ops = Inr ex_composed"
  by (simp add: ex_ops_def ex_composed_def SubBatch_init_def SubBatch_add_pref_def
      SubBatch_pop_pref_def SubBatch_add_gdec_def SubBatch_add_cdec_def SubBatch_pop_cdec_def
      BatchPerfData_init_def BatchPerfData_add_pref_def BatchPerfData_pop_pref_def
      BatchPerfData_add_gdec_def BatchPerfData_add_cdec_def BatchPerfData_pop_cdec_def
      ZeroPerfPredictor_def list_pop_def Let_def seq_len_def ex_heap_def)

lemma ex_halve_8: "halve_block_size 8 50 50 2048 = 64"
  by (simp add: halve_block_size.simps keep_halving_def)

lemma ex_halve_big: "halve_block_size 100000 50 50 2048 = 2048"
  by (simp add: halve_block_size.simps keep_halving_def)

lemma ex_heap_pos:
  "0 < a \<Longrightarrow> ex_heap a =
     \<lparr>prompt_token_ids = replicate 50 7, prompt_len = 50, output_len = 0,
      max_output_len = 10 ^ 9, output_q = [], finished_event = False, request_id = int a,
      output_token_ids = []\<rparr>"
  by (simp add: ex_heap_def Let_def)

lemma ex_lens: "get_lens ex_heap [0, 2] = [100, 50]"
  by (simp add: get_lens_def seq_len_def ex_heap_0 ex_heap_pos)

lemma ex_ids: "get_ids ex_heap [0, 2] = [0, 2]"
  by (simp add: get_ids_def ex_heap_0 ex_heap_pos)

lemma ex_slices:
  "slice [100, 50 :: int] None (Some 1) = [100]"
  "slice [100, 50 :: int] (Some 1) (Some 2) = [50]"
  by (simp_all add: slice_def norm_index_def Let_def)

lemma ex_finalize:
  "set_model_forward_args ex_heap ex_composed \<lparr>num_kv_heads = 8\<rparr> = Inr (ex_args 64)"
  by (simp add: set_model_forward_args_def ex_composed_def ex_args_def Let_def
      ex_lens ex_ids ex_slices max_default_def ex_halve_8 ex_heap_0 ex_heap_pos)

lemma ex_finalize_big:
  "set_model_forward_args ex_heap ex_composed \<lparr>num_kv_heads = 100000\<rparr> = Inr (ex_args 2048)"
  by (simp add: set_model_forward_args_def ex_composed_def ex_args_def Let_def
      ex_lens ex_ids ex_slices max_default_def ex_halve_big ex_heap_0 ex_heap_pos)

lemma ex_unset_run:
  "sb_run ex_unset (SubBatch_init ZeroPerfPredictor) [Sb_add_cdec 1] =
     Inr (SubBatch_add_cdec ex_unset (SubBatch_init ZeroPerfPredictor) 1)"
  by simp

text \<open>
  Claim C3. For a sub-batch built by a sequence of add and pop calls on a fresh one,
  \<^verbatim>\<open>set_model_forward_args\<close> raises \<^verbatim>\<open>AssertionError\<close> exactly when some request of the four
  lists has a negative \<open>request_id\<close>, and otherwise returns; \<open>all_reqs\<close> is then the
  CPU-prefill list followed by the GPU-prefill, the GPU-decode and the CPU-decode lists,
  its length is \<open>num_prgds + num_cdecs\<close>, and that is the count \<open>x\<close> before the
  finalization, which \<open>batch_size\<close> keeps.
\<close>

theorem set_model_forward_args_all_reqs:
  assumes run: "sb_run h (SubBatch_init p) ops = Inr sb"
  shows "(set_model_forward_args h sb cfg = Inl AssertionError \<longleftrightarrow>
            (\<exists>req\<in>set (cprf_reqs sb @ gprf_reqs sb @ gdec_reqs sb @ cdec_reqs sb).
               request_id (h req) < 0)) \<and>
         ((\<forall>req\<in>set (cprf_reqs sb @ gprf_reqs sb @ gdec_reqs sb @ cdec_reqs sb).
               0 \<le> request_id (h req)) \<longrightarrow>
            (\<exists>fa. set_model_forward_args h sb cfg = Inr fa)) \<and>
         (\<forall>fa. set_model_forward_args h sb cfg = Inr fa \<longrightarrow>
            all_reqs fa = cprf_reqs sb @ gprf_reqs sb @ gdec_reqs sb @ cdec_reqs sb \<and>
            int (length (all_reqs fa)) = num_prgds fa + num_cdecs fa \<and>
            num_prgds fa + num_cdecs fa = x (perfdata sb) \<and>
            batch_size fa = x (perfdata sb))"
proof -
  have tc: "totals_consistent h sb"
    using totals_consistent_run [OF totals_consistent_init run] .
  have a: "set_model_forward_args h sb cfg = Inl AssertionError \<longleftrightarrow>
            (\<exists>req\<in>set (cprf_reqs sb @ gprf_reqs sb @ gdec_reqs sb @ cdec_reqs sb).
               request_id (h req) < 0)"
    by (simp only: finalize_Inl simp_thms)
  have b: "\<exists>fa. set_model_forward_args h sb cfg = Inr fa"
    if "\<forall>req\<in>set (cprf_reqs sb @ gprf_reqs sb @ gdec_reqs sb @ cdec_reqs sb).
               0 \<le> request_id (h req)"
  proof (cases "set_model_forward_args h sb cfg")
    case (Inl e)
    with finalize_Inl [of h sb cfg e] that show ?thesis by fastforce
  next
    case (Inr fa)
    then show ?thesis by blast
  qed
  have c: "all_reqs fa = cprf_reqs sb @ gprf_reqs sb @ gdec_reqs sb @ cdec_reqs sb \<and>
            int (length (all_reqs fa)) = num_prgds fa + num_cdecs fa \<and>
            num_prgds fa + num_cdecs fa = x (perfdata sb) \<and>
            batch_size fa = x (perfdata sb)"
    if "set_model_forward_args h sb cfg = Inr fa" for fa
    using finalize_Inr [OF that] tc by (simp add: totals_consistent_def)
  show ?thesis
    using a b c by blast
qed

theorem set_model_forward_args_all_reqs_witness:
  "sb_run ex_heap (SubBatch_init ZeroPerfPredictor) ex_ops = Inr ex_composed \<and>
   set_model_forward_args ex_heap ex_composed \<lparr>num_kv_heads = 8\<rparr> = Inr (ex_args 64) \<and>
   all_reqs (ex_args 64) = [0, 2] \<and>
   int (length (all_reqs (ex_args 64))) = num_prgds (ex_args 64) + num_cdecs (ex_args 64) \<and>
   num_prgds (ex_args 64) + num_cdecs (ex_args 64) = x (perfdata ex_composed) \<and>
   sb_run ex_unset (SubBatch_init ZeroPerfPredictor) [Sb_add_cdec 1] =
     Inr (SubBatch_add_cdec ex_unset (SubBatch_init ZeroPerfPredictor) 1) \<and>
   request_id (ex_unset 1) < 0 \<and>
   set_model_forward_args ex_unset
     (SubBatch_add_cdec ex_unset (SubBatch_init ZeroPerfPredictor) 1) \<lparr>num_kv_heads = 8\<rparr> =
     Inl AssertionError"
proof -
  let ?cfg = "\<lparr>num_kv_heads = 8\<rparr>"
  let ?sb = "SubBatch_add_cdec ex_unset (SubBatch_init ZeroPerfPredictor) 1"
  have m: "1 \<in> set (cprf_reqs ?sb @ gprf_reqs ?sb @ gdec_reqs ?sb @ cdec_reqs ?sb)"
    by (simp add: SubBatch_add_cdec_def)
  have neg: "request_id (ex_unset 1) < 0"
    by (simp add: ex_unset_def)
  from set_model_forward_args_all_reqs [OF ex_unset_run, of ?cfg] m neg
  have fail: "set_model_forward_args ex_unset ?sb ?cfg = Inl AssertionError"
    by blast
  from set_model_forward_args_all_reqs [OF ex_run, of ?cfg] ex_finalize
  have ok: "int (length (all_reqs (ex_args 64))) = num_prgds (ex_args 64) + num_cdecs (ex_args 64) \<and>
      num_prgds (ex_args 64) + num_cdecs (ex_args 64) = x (perfdata ex_composed)"
    by blast
  have ar: "all_reqs (ex_args 64) = [0, 2]"
    by (simp add: ex_args_def)
  show ?thesis
    using ex_run ex_finalize ex_unset_run neg fail ok ar by simp
qed

text \<open>
  Claim C6. Whenever \<^verbatim>\<open>set_model_forward_args\<close> returns, \<open>seq_block_size\<close> is one of 64, 128,
  256, 512, 1024, 2048: a power of two that divides 2048, between 64 and 2048. It is
  2048 halved \<open>n\<close> times, where the condition of the loop (\<open>num_kv_heads\<close> times the sum of
  the GPU-decode sequence lengths over the candidate is below 1024, the halved candidate
  is at least 64, and the largest GPU-decode sequence length over the halved candidate
  is at most 128) holds at each of the first \<open>n\<close> candidates and fails at the last. And
  \<open>num_seq_blocks\<close> is the ceiling of the largest GPU-decode sequence length (0 if there
  is none) over \<open>seq_block_size\<close>.
\<close>

theorem set_model_forward_args_block_size:
  assumes fin: "set_model_forward_args h sb cfg = Inr fa"
  shows "seq_block_size fa \<in> {64, 128, 256, 512, 1024, 2048} \<and>
     seq_block_size fa dvd 2048 \<and> (\<exists>e. seq_block_size fa = 2 ^ e) \<and>
     64 \<le> seq_block_size fa \<and> seq_block_size fa \<le> 2048 \<and>
     (\<exists>n. seq_block_size fa = 2048 div 2 ^ n \<and>
        (\<forall>j<n. keep_halving (num_kv_heads cfg) (sum_list (get_lens h (gdec_reqs sb)))
                  (max_default (get_lens h (gdec_reqs sb)) 0) (2048 div 2 ^ j)) \<and>
        \<not> keep_halving (num_kv_heads cfg) (sum_list (get_lens h (gdec_reqs sb)))
            (max_default (get_lens h (gdec_reqs sb)) 0) (2048 div 2 ^ n)) \<and>
     num_seq_blocks fa =
       \<lceil>real_of_int (max_default (get_lens h (gdec_reqs sb)) 0) / real_of_int (seq_block_size fa)\<rceil>"
proof -
  let ?k = "num_kv_heads cfg" and ?a = "sum_list (get_lens h (gdec_reqs sb))"
    and ?m = "max_default (get_lens h (gdec_reqs sb)) 0"
  note b = finalize_block [OF fin]
  have seed: "(2048::int) \<in> {64, 128, 256, 512, 1024, 2048}" by simp
  from halve_block_size_range [OF seed, of ?k ?a ?m] b(1)
  have rng: "seq_block_size fa \<in> {64, 128, 256, 512, 1024, 2048}" by simp
  have pow: "\<exists>e. seq_block_size fa = 2 ^ e"
  proof -
    from rng consider "seq_block_size fa = 64" | "seq_block_size fa = 128"
      | "seq_block_size fa = 256" | "seq_block_size fa = 512" | "seq_block_size fa = 1024"
      | "seq_block_size fa = 2048"
      by blast
    then show ?thesis
    proof cases
      case 1 then show ?thesis by (intro exI [of _ 6]) simp
    next
      case 2 then show ?thesis by (intro exI [of _ 7]) simp
    next
      case 3 then show ?thesis by (intro exI [of _ 8]) simp
    next
      case 4 then show ?thesis by (intro exI [of _ 9]) simp
    next
      case 5 then show ?thesis by (intro exI [of _ 10]) simp
    next
      case 6 then show ?thesis by (intro exI [of _ 11]) simp
    qed
  qed
  have dv: "seq_block_size fa dvd 2048"
    using rng by (elim insertE emptyE) simp_all
  have bounds: "64 \<le> seq_block_size fa" "seq_block_size fa \<le> 2048"
    using rng by (elim insertE emptyE, simp_all)+
  from halve_block_size_steps [OF seed, of ?k ?a ?m] b(1)
  have steps: "\<exists>n. seq_block_size fa = 2048 div 2 ^ n \<and>
        (\<forall>j<n. keep_halving ?k ?a ?m (2048 div 2 ^ j)) \<and> \<not> keep_halving ?k ?a ?m (2048 div 2 ^ n)"
    by simp
  have "0 < seq_block_size fa" using bounds by simp
  from ceiling_div [OF this, of ?m] b(2)
  have blocks: "num_seq_blocks fa = \<lceil>real_of_int ?m / real_of_int (seq_block_size fa)\<rceil>"
    by simp
  show ?thesis
    using rng pow dv bounds steps blocks by (intro conjI)
qed

theorem set_model_forward_args_block_size_witness:
  "set_model_forward_args ex_heap ex_composed \<lparr>num_kv_heads = 8\<rparr> = Inr (ex_args 64) \<and>
   set_model_forward_args ex_heap ex_composed \<lparr>num_kv_heads = 100000\<rparr> = Inr (ex_args 2048) \<and>
   seq_block_size (ex_args 64) = 64 \<and> seq_block_size (ex_args 2048) = 2048 \<and>
   seq_block_size (ex_args 64) dvd 2048 \<and>
   num_seq_blocks (ex_args 64) =
     \<lceil>real_of_int (max_default (get_lens ex_heap (gdec_reqs ex_composed)) 0)
        / real_of_int (seq_block_size (ex_args 64))\<rceil> \<and>
   num_seq_blocks (ex_args 2048) =
     \<lceil>real_of_int (max_default (get_lens ex_heap (gdec_reqs ex_composed)) 0)
        / real_of_int (seq_block_size (ex_args 2048))\<rceil>"
  using ex_finalize ex_finalize_big set_model_forward_args_block_size [OF ex_finalize] set_model_forward_args_block_size [OF ex_finalize_big]
  by (simp add: ex_args_def)

section \<open>Properties of the serialization view\<close>






end
